theory Spec2Isabelle
  imports Complex_Main
begin

section \<open>Equity analysis: metric definitions and metric sets\<close>

text \<open>
  The equity half of \<^verbatim>\<open>Stock-MF-Calc.py\<close> works on dictionaries from metric keys
  to numbers fetched from the data provider; a field the provider lacks is \<^verbatim>\<open>None\<close>.
  A metric set is a map from keys to numbers, \<open>None\<close> standing for Python's
  \<^verbatim>\<open>None\<close> (returned by \<^verbatim>\<open>dict.get\<close> and \<^verbatim>\<open>Series.get\<close> alike).
  The equity code never divides, so its numbers stay finite and are modelled as reals;
  rounding of binary floating point is not part of the model.
\<close>

type_synonym metric_set = "string \<rightharpoonup> real"

record metric_def =
  label :: string
  inverse :: bool
  range :: string

text \<open>
  \<^verbatim>\<open>METRIC_INFO\<close>, in the insertion order of the dictionary literal (the order
  in which \<^verbatim>\<open>.items()\<close> iterates). The en dashes of the range texts are written
  as hyphens.
\<close>

definition METRIC_INFO :: "(string \<times> metric_def) list" where
  "METRIC_INFO =
     [(''pe'', \<lparr>label = ''P/E Ratio'', inverse = True,
               range = ''<15 Cheap | 15-25 Fair | >25 Expensive''\<rparr>),
      (''roe'', \<lparr>label = ''ROE'', inverse = False,
                range = ''<10% Weak | 10-15% Avg | >15% Strong''\<rparr>),
      (''margin'', \<lparr>label = ''Operating Margin'', inverse = False,
                   range = ''<10% Weak | 10-20% Healthy | >20% Strong''\<rparr>),
      (''rev_growth'', \<lparr>label = ''Revenue Growth'', inverse = False,
                       range = ''<5% Low | 5-12% Moderate | >12% High''\<rparr>),
      (''de'', \<lparr>label = ''Debt / Equity'', inverse = True,
               range = ''<0.5 Safe | 0.5-1 Acceptable | >1 Risky''\<rparr>)]"

text \<open>
  The verdict column of the comparison table holds one of three strings:
  \<^verbatim>\<open>"Better"\<close>, \<^verbatim>\<open>"Worse"\<close> and the dash written for a missing value.
\<close>

datatype cmp_verdict = Better | Worse | Dash

record comparison_row =
  Metric :: string
  Stock :: "real option"
  Sector_Avg :: "real option"
  Interpretation :: string
  Verdict :: cmp_verdict

subsection \<open>\<^verbatim>\<open>build_comparison\<close>\<close>

text \<open>The body of the loop of \<^verbatim>\<open>build_comparison\<close>: one row for one metric.\<close>

definition comparison_row_of ::
  "metric_set \<Rightarrow> metric_set \<Rightarrow> string \<times> metric_def \<Rightarrow> comparison_row" where
  "comparison_row_of stock sector km =
     (let k = fst km; meta = snd km;
          s = stock k; sec = sector k;
          verdict =
            (if s = None \<or> sec = None then Dash
             else (let better = (if inverse meta then the s < the sec
                                 else the s > the sec)
                   in if better then Better else Worse))
      in \<lparr>Metric = label meta, Stock = s, Sector_Avg = sec,
          Interpretation = range meta, Verdict = verdict\<rparr>)"

definition build_comparison :: "metric_set \<Rightarrow> metric_set \<Rightarrow> comparison_row list" where
  "build_comparison stock sector = map (comparison_row_of stock sector) METRIC_INFO"

subsection \<open>\<^verbatim>\<open>why_this_stock\<close>\<close>

text \<open>
  The loop of \<^verbatim>\<open>why_this_stock\<close> threads the two lists \<^verbatim>\<open>positives\<close> and
  \<^verbatim>\<open>negatives\<close>; \<^verbatim>\<open>continue\<close> leaves both unchanged.
\<close>

fun why_loop ::
  "metric_set \<Rightarrow> metric_set \<Rightarrow> (string \<times> metric_def) list
     \<Rightarrow> string list \<times> string list \<Rightarrow> string list \<times> string list" where
  "why_loop stock sector [] acc = acc"
| "why_loop stock sector ((k, meta) # rest) (positives, negatives) =
     (let s = stock k; sec = sector k in
      if s = None \<or> sec = None then why_loop stock sector rest (positives, negatives)
      else (let better = (if inverse meta then the s < the sec else the s > the sec)
            in if better
               then why_loop stock sector rest (positives @ [label meta], negatives)
               else why_loop stock sector rest (positives, negatives @ [label meta])))"

definition positives_of :: "metric_set \<Rightarrow> metric_set \<Rightarrow> string list" where
  "positives_of stock sector = fst (why_loop stock sector METRIC_INFO ([], []))"

definition negatives_of :: "metric_set \<Rightarrow> metric_set \<Rightarrow> string list" where
  "negatives_of stock sector = snd (why_loop stock sector METRIC_INFO ([], []))"

text \<open>Python's \<^verbatim>\<open>sep.join(xs)\<close>.\<close>

fun join :: "string \<Rightarrow> string list \<Rightarrow> string" where
  "join sep [] = []"
| "join sep [x] = x"
| "join sep (x # y # ys) = x @ sep @ join sep (y # ys)"

definition why_this_stock :: "metric_set \<Rightarrow> metric_set \<Rightarrow> string" where
  "why_this_stock stock sector =
     (let positives = positives_of stock sector;
          negatives = negatives_of stock sector
      in if positives = [] \<and> negatives = []
         then ''The stock performs broadly in line with sector peers.''
         else (let text1 = (if positives \<noteq> []
                            then [''Strengths: '' @ join '', '' positives @ ''.'']
                            else []);
                   text2 = (if negatives \<noteq> []
                            then text1 @ [''Weaknesses: '' @ join '', '' negatives @ ''.'']
                            else text1)
               in join '' '' text2))"

subsection \<open>Expected return of a stock\<close>

text \<open>
  Python's \<^verbatim>\<open>x or 0\<close> on an optional number: \<^verbatim>\<open>None\<close> and \<^verbatim>\<open>0.0\<close> are
  falsy and give \<^verbatim>\<open>0\<close>, every other number is returned as it is.
\<close>

definition or_zero :: "real option \<Rightarrow> real" where
  "or_zero x = (case x of None \<Rightarrow> 0 | Some v \<Rightarrow> if v = 0 then 0 else v)"

definition roe_bonus :: "metric_set \<Rightarrow> real" where
  "roe_bonus stock_metrics =
     (let roe = or_zero (stock_metrics ''roe'') in if roe > 15 / 100 then 3 / 100 else 0)"

definition de_penalty :: "metric_set \<Rightarrow> real" where
  "de_penalty stock_metrics =
     (let de = or_zero (stock_metrics ''de'') in if de > 1 then 2 / 100 else 0)"

definition expected_return_stock :: "metric_set \<Rightarrow> real" where
  "expected_return_stock stock_metrics =
     (let rev = or_zero (stock_metrics ''rev_growth'')
      in rev + roe_bonus stock_metrics - de_penalty stock_metrics)"

section \<open>Mutual fund analysis: floating-point values\<close>

text \<open>
  The fund half divides, takes roots and compares, on \<^verbatim>\<open>float64\<close> values of
  pandas and numpy, where a division by zero does not raise: it gives an infinity or
  NaN. A value is a finite number, one of the two infinities, or NaN. Finite numbers
  are reals: rounding is not part of the model, and the sign of a zero is not
  recorded (a zero divisor counts as \<open>+0\<close>, which is what a standard deviation,
  a running maximum of non-negative prices and a parsed non-negative price are).
\<close>

datatype fl = Num real | PInf | NInf | NaN

fun fneg :: "fl \<Rightarrow> fl" where
  "fneg (Num a) = Num (- a)"
| "fneg PInf = NInf"
| "fneg NInf = PInf"
| "fneg NaN = NaN"

fun fadd :: "fl \<Rightarrow> fl \<Rightarrow> fl" where
  "fadd (Num a) (Num b) = Num (a + b)"
| "fadd NaN y = NaN"
| "fadd x NaN = NaN"
| "fadd PInf NInf = NaN"
| "fadd NInf PInf = NaN"
| "fadd PInf y = PInf"
| "fadd NInf y = NInf"
| "fadd x PInf = PInf"
| "fadd x NInf = NInf"

definition fsub :: "fl \<Rightarrow> fl \<Rightarrow> fl" where
  "fsub x y = fadd x (fneg y)"

text \<open>The sign of an infinite product, by the sign of the finite factor.\<close>

definition signed_inf :: "real \<Rightarrow> fl" where
  "signed_inf a = (if a > 0 then PInf else if a < 0 then NInf else NaN)"

fun fmul :: "fl \<Rightarrow> fl \<Rightarrow> fl" where
  "fmul (Num a) (Num b) = Num (a * b)"
| "fmul NaN y = NaN"
| "fmul x NaN = NaN"
| "fmul (Num a) PInf = signed_inf a"
| "fmul (Num a) NInf = signed_inf (- a)"
| "fmul PInf (Num b) = signed_inf b"
| "fmul NInf (Num b) = signed_inf (- b)"
| "fmul PInf PInf = PInf"
| "fmul NInf NInf = PInf"
| "fmul PInf NInf = NInf"
| "fmul NInf PInf = NInf"

fun fdiv :: "fl \<Rightarrow> fl \<Rightarrow> fl" where
  "fdiv (Num a) (Num b) = (if b = 0 then signed_inf a else Num (a / b))"
| "fdiv NaN y = NaN"
| "fdiv x NaN = NaN"
| "fdiv (Num a) PInf = Num 0"
| "fdiv (Num a) NInf = Num 0"
| "fdiv PInf (Num b) = (if b < 0 then NInf else PInf)"
| "fdiv NInf (Num b) = (if b < 0 then PInf else NInf)"
| "fdiv PInf PInf = NaN"
| "fdiv PInf NInf = NaN"
| "fdiv NInf PInf = NaN"
| "fdiv NInf NInf = NaN"

text \<open>Comparisons: every comparison with NaN is false.\<close>

fun flt :: "fl \<Rightarrow> fl \<Rightarrow> bool" where
  "flt (Num a) (Num b) = (a < b)"
| "flt NaN y = False"
| "flt x NaN = False"
| "flt PInf y = False"
| "flt x PInf = True"
| "flt NInf (Num b) = True"
| "flt x NInf = False"

definition fgt :: "fl \<Rightarrow> fl \<Rightarrow> bool" where
  "fgt x y = flt y x"

fun fle :: "fl \<Rightarrow> fl \<Rightarrow> bool" where
  "fle (Num a) (Num b) = (a \<le> b)"
| "fle NaN y = False"
| "fle x NaN = False"
| "fle NInf y = True"
| "fle x PInf = True"
| "fle PInf y = False"
| "fle x NInf = False"

definition fge :: "fl \<Rightarrow> fl \<Rightarrow> bool" where
  "fge x y = fle y x"

fun fsqrt :: "fl \<Rightarrow> fl" where
  "fsqrt (Num a) = (if a < 0 then NaN else Num (sqrt a))"
| "fsqrt PInf = PInf"
| "fsqrt NInf = NaN"
| "fsqrt NaN = NaN"

text \<open>
  \<^verbatim>\<open>x ** (1/3)\<close> on a \<^verbatim>\<open>float64\<close>: NaN for a negative base, since the
  exponent is not an integer; \<open>powr\<close> gives \<open>0\<close> at base \<open>0\<close>, as the power does.
\<close>

fun pow_third :: "fl \<Rightarrow> fl" where
  "pow_third (Num a) = (if a < 0 then NaN else Num (a powr (1 / 3)))"
| "pow_third PInf = PInf"
| "pow_third NInf = PInf"
| "pow_third NaN = NaN"

definition is_nan :: "fl \<Rightarrow> bool" where
  "is_nan x = (case x of NaN \<Rightarrow> True | _ \<Rightarrow> False)"

section \<open>Mutual fund analysis: the verdict classifier\<close>

text \<open>
  \<^verbatim>\<open>mf_verdict\<close> returns one of three strings, a tick, a yellow circle or a red
  circle followed by \<^verbatim>\<open>Good\<close>, \<^verbatim>\<open>Average\<close>, \<^verbatim>\<open>Poor\<close>. When no
  \<^verbatim>\<open>if\<close> matches the metric the function body ends without a \<^verbatim>\<open>return\<close>,
  and the call returns \<^verbatim>\<open>None\<close>. A call either raises (\<open>Inl\<close>) or returns
  (\<open>Inr\<close>) a string (\<open>Some\<close>) or \<^verbatim>\<open>None\<close>.
\<close>

datatype verdict = Good | Average | Poor

datatype py_error = IndexError | KeyError

definition mf_verdict :: "string \<Rightarrow> fl \<Rightarrow> py_error + verdict option" where
  "mf_verdict metric v =
     (if metric \<in> set [''1Y CAGR'', ''3Y CAGR'']
      then (if fgt v (Num (12 / 100)) then Inr (Some Good)
            else if fge v (Num (8 / 100)) then Inr (Some Average)
            else Inr (Some Poor))
      else if metric = ''Volatility''
      then (if flt v (Num (15 / 100)) then Inr (Some Good)
            else if fle v (Num (20 / 100)) then Inr (Some Average)
            else Inr (Some Poor))
      else if metric = ''Sharpe Ratio''
      then (if fgt v (Num 1) then Inr (Some Good)
            else if fge v (Num (5 / 10)) then Inr (Some Average)
            else Inr (Some Poor))
      else if metric = ''Max Drawdown''
      then (if fgt v (Num (- (25 / 100))) then Inr (Some Good)
            else if fge v (Num (- (40 / 100))) then Inr (Some Average)
            else Inr (Some Poor))
      else Inr None)"

text \<open>The metric names the classifier has a branch for.\<close>

definition recognized :: "string set" where
  "recognized = {''1Y CAGR'', ''3Y CAGR'', ''Volatility'', ''Sharpe Ratio'', ''Max Drawdown''}"

section \<open>Mutual fund analysis: the NAV series\<close>

text \<open>
  A date is year, month, day; the frame \<^verbatim>\<open>nav_df\<close> after \<^verbatim>\<open>sort_values\<close> is
  a list of rows (date, nav) in ascending date order. A NAV is a finite number, parsed
  from the decimal string of the payload.
\<close>

type_synonym date = "int \<times> nat \<times> nat"

type_synonym nav_frame = "(date \<times> real) list"

fun date_le :: "date \<Rightarrow> date \<Rightarrow> bool" where
  "date_le (y1, m1, d1) (y2, m2, d2) =
     (y1 < y2 \<or> (y1 = y2 \<and> (m1 < m2 \<or> (m1 = m2 \<and> d1 \<le> d2))))"

definition is_leap :: "int \<Rightarrow> bool" where
  "is_leap y = (y mod 4 = 0 \<and> (y mod 100 \<noteq> 0 \<or> y mod 400 = 0))"

definition days_in_month :: "int \<Rightarrow> nat \<Rightarrow> nat" where
  "days_in_month y m =
     (if m = 2 then (if is_leap y then 29 else 28)
      else if m \<in> {4, 6, 9, 11} then 30 else 31)"

text \<open>
  \<^verbatim>\<open>ts - pd.DateOffset(years=k)\<close>: the same month and day \<open>k\<close> years earlier, the
  day cut to the last day of the month (29 February goes to 28 February).
\<close>

fun minus_years :: "date \<Rightarrow> int \<Rightarrow> date" where
  "minus_years (y, m, d) k = (y - k, m, min d (days_in_month (y - k) m))"

text \<open>\<^verbatim>\<open>nav_df["date"].max()\<close>; an empty column has no maximum (\<^verbatim>\<open>NaT\<close>).\<close>

fun date_max :: "date list \<Rightarrow> date option" where
  "date_max [] = None"
| "date_max (d # ds) =
     (case date_max ds of None \<Rightarrow> Some d
      | Some e \<Rightarrow> if date_le d e then Some e else Some d)"

text \<open>
  The rows with \<^verbatim>\<open>date >= max - DateOffset(years=k)\<close>; every comparison with
  \<^verbatim>\<open>NaT\<close> is false.
\<close>

definition window :: "nav_frame \<Rightarrow> int \<Rightarrow> nav_frame" where
  "window nav_df k =
     (case date_max (map fst nav_df) of
        None \<Rightarrow> []
      | Some mx \<Rightarrow> filter (\<lambda>row. date_le (minus_years mx k) (fst row)) nav_df)"

text \<open>\<^verbatim>\<open>.iloc[0]\<close> and \<^verbatim>\<open>.iloc[-1]\<close> raise \<^verbatim>\<open>IndexError\<close> on an empty column.\<close>

definition iloc_first :: "'a list \<Rightarrow> py_error + 'a" where
  "iloc_first xs = (case xs of [] \<Rightarrow> Inl IndexError | x # _ \<Rightarrow> Inr x)"

definition iloc_last :: "'a list \<Rightarrow> py_error + 'a" where
  "iloc_last xs = (if xs = [] then Inl IndexError else Inr (last xs))"

definition cagr_1y :: "nav_frame \<Rightarrow> py_error + fl" where
  "cagr_1y nav_df =
     (let nav_1y = map snd (window nav_df 1) in
      case iloc_last nav_1y of Inl e \<Rightarrow> Inl e
      | Inr l \<Rightarrow> (case iloc_first nav_1y of Inl e \<Rightarrow> Inl e
          | Inr f \<Rightarrow> Inr (fsub (fdiv (Num l) (Num f)) (Num 1))))"

definition cagr_3y :: "nav_frame \<Rightarrow> py_error + fl" where
  "cagr_3y nav_df =
     (let nav_3y = map snd (window nav_df 3) in
      case iloc_last nav_3y of Inl e \<Rightarrow> Inl e
      | Inr l \<Rightarrow> (case iloc_first nav_3y of Inl e \<Rightarrow> Inl e
          | Inr f \<Rightarrow> Inr (fsub (pow_third (fdiv (Num l) (Num f))) (Num 1))))"

subsection \<open>Returns, volatility and Sharpe ratio\<close>

text \<open>
  \<^verbatim>\<open>pct_change\<close>: the first entry is NaN, every later one is
  \<^verbatim>\<open>nav[i] / nav[i-1] - 1\<close>.
\<close>

fun pct_from :: "real \<Rightarrow> real list \<Rightarrow> fl list" where
  "pct_from prev [] = []"
| "pct_from prev (x # xs) = fsub (fdiv (Num x) (Num prev)) (Num 1) # pct_from x xs"

fun pct_change :: "real list \<Rightarrow> fl list" where
  "pct_change [] = []"
| "pct_change (x # xs) = NaN # pct_from x xs"

text \<open>
  The reductions of pandas skip NaN entries (\<^verbatim>\<open>skipna=True\<close>). The mean of no
  value is NaN; the standard deviation is the sample one (\<^verbatim>\<open>ddof=1\<close>), NaN with
  fewer than two values.
\<close>

definition dropna :: "fl list \<Rightarrow> fl list" where
  "dropna xs = filter (\<lambda>x. \<not> is_nan x) xs"

definition fsum :: "fl list \<Rightarrow> fl" where
  "fsum xs = foldl fadd (Num 0) xs"

definition series_mean :: "fl list \<Rightarrow> fl" where
  "series_mean xs =
     (let vals = dropna xs; count = length vals in
      if count = 0 then NaN else fdiv (fsum vals) (Num (real count)))"

definition series_var :: "fl list \<Rightarrow> fl" where
  "series_var xs =
     (let vals = dropna xs; count = length vals in
      if count \<le> 1 then NaN
      else (let avg = fdiv (fsum vals) (Num (real count));
                sqr = map (\<lambda>x. fmul (fsub avg x) (fsub avg x)) vals
            in fdiv (fsum sqr) (Num (real (count - 1)))))"

definition series_std :: "fl list \<Rightarrow> fl" where
  "series_std xs = fsqrt (series_var xs)"

definition returns :: "nav_frame \<Rightarrow> fl list" where
  "returns nav_df = pct_change (map snd nav_df)"

definition volatility :: "nav_frame \<Rightarrow> fl" where
  "volatility nav_df = fmul (series_std (returns nav_df)) (Num (sqrt 252))"

definition sharpe :: "nav_frame \<Rightarrow> fl" where
  "sharpe nav_df =
     fdiv (fmul (series_mean (returns nav_df)) (Num 252)) (volatility nav_df)"

subsection \<open>Maximum drawdown\<close>







subsection \<open>Expected return of a fund\<close>

text \<open>
  Python's built-in \<^verbatim>\<open>max(a, b)\<close> keeps \<^verbatim>\<open>a\<close> unless \<^verbatim>\<open>b > a\<close>, and
  \<^verbatim>\<open>min(a, b)\<close> keeps \<^verbatim>\<open>a\<close> unless \<^verbatim>\<open>b < a\<close>.
\<close>

definition py_max :: "fl \<Rightarrow> fl \<Rightarrow> fl" where
  "py_max a b = (if fgt b a then b else a)"

definition py_min :: "fl \<Rightarrow> fl \<Rightarrow> fl" where
  "py_min a b = (if flt b a then b else a)"

definition sharpe_adj :: "fl \<Rightarrow> fl" where
  "sharpe_adj sh = py_min (py_max sh (Num (5 / 10))) (Num (12 / 10))"

definition expected_return_mf :: "fl \<Rightarrow> fl \<Rightarrow> fl" where
  "expected_return_mf c3 sh = fmul c3 (sharpe_adj sh)"

text \<open>
  The clamp of a value into \<open>[0.5, 1.2]\<close> as the specification words it, NaN staying
  NaN.
\<close>

definition clamp_spec :: "fl \<Rightarrow> fl" where
  "clamp_spec x =
     (case x of NaN \<Rightarrow> NaN
      | PInf \<Rightarrow> Num (12 / 10)
      | NInf \<Rightarrow> Num (5 / 10)
      | Num a \<Rightarrow> Num (max (5 / 10) (min (12 / 10) a)))"

text \<open>
  Lines 293 to 301 on a frame: the three-year rate, which raises on an empty window,
  then the Sharpe ratio, its clamp and the product.
\<close>

definition expected_return_mf_of :: "nav_frame \<Rightarrow> py_error + fl" where
  "expected_return_mf_of nav_df =
     (case cagr_3y nav_df of
        Inl e \<Rightarrow> Inl e
      | Inr c3 \<Rightarrow> Inr (expected_return_mf c3 (sharpe nav_df)))"

section \<open>Auxiliary notions for the statements\<close>

text \<open>
  The labels of the metrics of a list for which both the stock and the sector have a
  value: the only labels the narrative loop can append.
\<close>

definition present_labels ::
  "metric_set \<Rightarrow> metric_set \<Rightarrow> (string \<times> metric_def) list \<Rightarrow> string set" where
  "present_labels stock sector ms =
     {label (snd km) | km. km \<in> set ms \<and> stock (fst km) \<noteq> None \<and> sector (fst km) \<noteq> None}"

text \<open>The boundary values of a window that is not empty.\<close>

definition window_first :: "nav_frame \<Rightarrow> int \<Rightarrow> real" where
  "window_first nav_df k = snd (hd (window nav_df k))"

definition window_last :: "nav_frame \<Rightarrow> int \<Rightarrow> real" where
  "window_last nav_df k = snd (last (window nav_df k))"

section \<open>The comparator\<close>

lemma row_verdict_present:
  "stock (fst km) = Some s \<Longrightarrow> sector (fst km) = Some sec \<Longrightarrow>
   Verdict (comparison_row_of stock sector km) =
     (if (inverse (snd km) \<and> s < sec) \<or> (\<not> inverse (snd km) \<and> s > sec)
      then Better else Worse)"
  by (simp add: comparison_row_of_def Let_def)

lemma build_comparison_nth:
  "i < length METRIC_INFO \<Longrightarrow>
   build_comparison stock sector ! i = comparison_row_of stock sector (METRIC_INFO ! i)"
  by (simp add: build_comparison_def)

text \<open>
  C5. Every row of the comparison table whose metric has a value both for the stock and
  for the sector is \<open>Better\<close> exactly when the metric is lower-is-better and the stock is
  strictly below the sector, or higher-is-better and strictly above; otherwise it is
  \<open>Worse\<close>, and so it is at a tie. The same holds of the loop body at any metric
  definition whatever.
\<close>

theorem build_comparison_verdict:
  assumes "i < length METRIC_INFO"
    and "stock (fst (METRIC_INFO ! i)) = Some s"
    and "sector (fst (METRIC_INFO ! i)) = Some sec"
  shows "Verdict (build_comparison stock sector ! i) =
           (if (inverse (snd (METRIC_INFO ! i)) \<and> s < sec)
               \<or> (\<not> inverse (snd (METRIC_INFO ! i)) \<and> s > sec)
            then Better else Worse)
       \<and> (s = sec \<longrightarrow> Verdict (build_comparison stock sector ! i) = Worse)
       \<and> (stock' (fst km) = Some s \<and> sector' (fst km) = Some sec \<longrightarrow>
            Verdict (comparison_row_of stock' sector' km) =
              (if (inverse (snd km) \<and> s < sec) \<or> (\<not> inverse (snd km) \<and> s > sec)
               then Better else Worse))"
proof -
  have a: "Verdict (build_comparison stock sector ! i) =
           (if (inverse (snd (METRIC_INFO ! i)) \<and> s < sec)
               \<or> (\<not> inverse (snd (METRIC_INFO ! i)) \<and> s > sec)
            then Better else Worse)"
    using assms by (simp add: build_comparison_nth row_verdict_present)
  have b: "s = sec \<longrightarrow> Verdict (build_comparison stock sector ! i) = Worse"
    using a by simp
  have c: "stock' (fst km) = Some s \<and> sector' (fst km) = Some sec \<longrightarrow>
            Verdict (comparison_row_of stock' sector' km) =
              (if (inverse (snd km) \<and> s < sec) \<or> (\<not> inverse (snd km) \<and> s > sec)
               then Better else Worse)"
    by (simp add: row_verdict_present)
  from a b c show ?thesis by blast
qed

theorem build_comparison_verdict_witness:
  "(0::nat) < length METRIC_INFO
   \<and> [''pe'' \<mapsto> 10] (fst (METRIC_INFO ! 0)) = Some (10::real)
   \<and> [''pe'' \<mapsto> 20] (fst (METRIC_INFO ! 0)) = Some (20::real)
   \<and> Verdict (build_comparison [''pe'' \<mapsto> 10] [''pe'' \<mapsto> 20] ! 0) = Better
   \<and> Verdict (build_comparison [''pe'' \<mapsto> 20] [''pe'' \<mapsto> 10] ! 0) = Worse
   \<and> Verdict (build_comparison [''pe'' \<mapsto> 10] [''pe'' \<mapsto> 10] ! 0) = Worse
   \<and> Verdict (comparison_row_of [''pe'' \<mapsto> 10] [''pe'' \<mapsto> 10] (METRIC_INFO ! 0)) = Worse"
  using build_comparison_verdict
          [of 0 "[''pe'' \<mapsto> 10]" 10 "[''pe'' \<mapsto> 20]" 20]
        build_comparison_verdict
          [of 0 "[''pe'' \<mapsto> 20]" 20 "[''pe'' \<mapsto> 10]" 10]
        build_comparison_verdict
          [of 0 "[''pe'' \<mapsto> 10]" 10 "[''pe'' \<mapsto> 10]" 10
              "[''pe'' \<mapsto> 10]" "METRIC_INFO ! 0" "[''pe'' \<mapsto> 10]"]
  by (simp add: METRIC_INFO_def)

subsection \<open>Missing values\<close>

lemma present_labels_Cons_absent:
  "stock k = None \<or> sector k = None \<Longrightarrow>
   present_labels stock sector ((k, meta) # rest) = present_labels stock sector rest"
  by (auto simp add: present_labels_def)

lemma present_labels_Cons_present:
  "stock k \<noteq> None \<Longrightarrow> sector k \<noteq> None \<Longrightarrow>
   present_labels stock sector ((k, meta) # rest) =
     insert (label meta) (present_labels stock sector rest)"
  by (auto simp add: present_labels_def)

lemma why_loop_labels:
  "set (fst (why_loop stock sector ms (p, n))) \<subseteq> set p \<union> present_labels stock sector ms
   \<and> set (snd (why_loop stock sector ms (p, n))) \<subseteq> set n \<union> present_labels stock sector ms"
proof (induction ms arbitrary: p n)
  case Nil
  show ?case by simp
next
  case (Cons km rest)
  obtain k meta where km: "km = (k, meta)" by (cases km)
  show ?case
  proof (cases "stock k = None \<or> sector k = None")
    case True
    then have "why_loop stock sector (km # rest) (p, n) = why_loop stock sector rest (p, n)"
      by (simp add: km)
    then show ?thesis
      using Cons.IH [of p n] True by (simp add: km present_labels_Cons_absent)
  next
    case False
    then have pl: "present_labels stock sector (km # rest) =
        insert (label meta) (present_labels stock sector rest)"
      by (simp add: km present_labels_Cons_present)
    let ?better = "if inverse meta then the (stock k) < the (sector k)
                   else the (stock k) > the (sector k)"
    show ?thesis
    proof (cases ?better)
      case True
      then have "why_loop stock sector (km # rest) (p, n) =
          why_loop stock sector rest (p @ [label meta], n)"
        using False by (auto simp add: km Let_def)
      then show ?thesis
        using Cons.IH [of "p @ [label meta]" n] pl by auto
    next
      case b: False
      then have "why_loop stock sector (km # rest) (p, n) =
          why_loop stock sector rest (p, n @ [label meta])"
        using False by (auto simp add: km Let_def)
      then show ?thesis
        using Cons.IH [of p "n @ [label meta]"] pl by auto
    qed
  qed
qed

lemma absent_label_not_present:
  assumes i: "i < length METRIC_INFO"
    and ab: "stock (fst (METRIC_INFO ! i)) = None \<or> sector (fst (METRIC_INFO ! i)) = None"
  shows "label (snd (METRIC_INFO ! i)) \<notin> present_labels stock sector METRIC_INFO"
proof
  assume "label (snd (METRIC_INFO ! i)) \<in> present_labels stock sector METRIC_INFO"
  then obtain km where km: "km \<in> set METRIC_INFO"
      "label (snd km) = label (snd (METRIC_INFO ! i))"
      "stock (fst km) \<noteq> None" "sector (fst km) \<noteq> None"
    by (auto simp add: present_labels_def)
  then obtain j where j: "j < length METRIC_INFO" "METRIC_INFO ! j = km"
    by (auto simp add: in_set_conv_nth)
  have "distinct (map (\<lambda>km. label (snd km)) METRIC_INFO)"
    by (simp add: METRIC_INFO_def)
  then have "i = j"
    using i j km(2) unfolding distinct_conv_nth by (simp, metis)
  then show False using ab km(3,4) j(2) by auto
qed

text \<open>
  C6. For every stock and sector metric set, a metric that lacks the stock value or the
  sector value has the dash as the verdict of its row, whose label is the metric's, and
  that label is in neither of the two lists from which the narrative builds its
  strengths and weaknesses.
\<close>

theorem build_comparison_absent:
  assumes "i < length METRIC_INFO"
    and "stock (fst (METRIC_INFO ! i)) = None \<or> sector (fst (METRIC_INFO ! i)) = None"
  shows "Verdict (build_comparison stock sector ! i) = Dash
       \<and> Metric (build_comparison stock sector ! i) = label (snd (METRIC_INFO ! i))
       \<and> label (snd (METRIC_INFO ! i)) \<notin> set (positives_of stock sector)
       \<and> label (snd (METRIC_INFO ! i)) \<notin> set (negatives_of stock sector)"
proof -
  have row: "build_comparison stock sector ! i =
      comparison_row_of stock sector (METRIC_INFO ! i)"
    using assms(1) by (rule build_comparison_nth)
  have v: "Verdict (build_comparison stock sector ! i) = Dash"
    using assms(2) by (auto simp add: row comparison_row_of_def Let_def)
  have m: "Metric (build_comparison stock sector ! i) = label (snd (METRIC_INFO ! i))"
    by (simp add: row comparison_row_of_def Let_def)
  have np: "label (snd (METRIC_INFO ! i)) \<notin> present_labels stock sector METRIC_INFO"
    using assms by (rule absent_label_not_present)
  have "set (positives_of stock sector) \<subseteq> present_labels stock sector METRIC_INFO"
       "set (negatives_of stock sector) \<subseteq> present_labels stock sector METRIC_INFO"
    using why_loop_labels [of stock sector METRIC_INFO "[]" "[]"]
    by (simp_all add: positives_of_def negatives_of_def)
  with np v m show ?thesis by blast
qed

theorem build_comparison_absent_witness:
  "(1::nat) < length METRIC_INFO
   \<and> [''pe'' \<mapsto> 10 :: real] (fst (METRIC_INFO ! 1)) = None
   \<and> Verdict (build_comparison [''pe'' \<mapsto> 10] [''pe'' \<mapsto> 20, ''roe'' \<mapsto> 1 / 10] ! 1) = Dash
   \<and> Metric (build_comparison [''pe'' \<mapsto> 10] [''pe'' \<mapsto> 20, ''roe'' \<mapsto> 1 / 10] ! 1) = ''ROE''
   \<and> ''ROE'' \<notin> set (positives_of [''pe'' \<mapsto> 10] [''pe'' \<mapsto> 20, ''roe'' \<mapsto> 1 / 10])
   \<and> ''ROE'' \<notin> set (negatives_of [''pe'' \<mapsto> 10] [''pe'' \<mapsto> 20, ''roe'' \<mapsto> 1 / 10])"
  using build_comparison_absent
          [of 1 "[''pe'' \<mapsto> 10]" "[''pe'' \<mapsto> 20, ''roe'' \<mapsto> 1 / 10]"]
  by (simp add: METRIC_INFO_def)

section \<open>The expected return of a stock\<close>

text \<open>
  C9. The expected return of a stock is the revenue growth, \<open>0\<close> when it is missing,
  plus \<open>0.03\<close> exactly when the return on equity is above \<open>0.15\<close>, minus \<open>0.02\<close>
  exactly when debt over equity is above \<open>1\<close>; nothing clamps it. Growth \<open>0.08\<close>,
  return on equity \<open>0.20\<close> and debt over equity \<open>1.5\<close> give \<open>0.09\<close>, and a
  negative growth with high debt gives a negative result.
\<close>

theorem expected_return_stock_formula:
  "expected_return_stock m =
     (case m ''rev_growth'' of None \<Rightarrow> 0 | Some r \<Rightarrow> r)
     + (case m ''roe'' of None \<Rightarrow> 0 | Some q \<Rightarrow> if q > 15 / 100 then 3 / 100 else 0)
     - (case m ''de'' of None \<Rightarrow> 0 | Some d \<Rightarrow> if d > 1 then 2 / 100 else 0)
   \<and> expected_return_stock
         [''rev_growth'' \<mapsto> 8 / 100, ''roe'' \<mapsto> 20 / 100, ''de'' \<mapsto> 15 / 10] = 9 / 100
   \<and> expected_return_stock
         [''rev_growth'' \<mapsto> - (5 / 100), ''roe'' \<mapsto> 10 / 100, ''de'' \<mapsto> 2] = - (7 / 100)"
  by (auto simp add: expected_return_stock_def roe_bonus_def de_penalty_def or_zero_def Let_def
       split: option.splits)

theorem expected_return_stock_formula_witness:
  "expected_return_stock [''rev_growth'' \<mapsto> 10 / 100, ''roe'' \<mapsto> 16 / 100] = 13 / 100
   \<and> expected_return_stock [''roe'' \<mapsto> 15 / 100, ''de'' \<mapsto> 3] = - (2 / 100)"
  using expected_return_stock_formula [of "[''rev_growth'' \<mapsto> 10 / 100, ''roe'' \<mapsto> 16 / 100]"]
        expected_return_stock_formula [of "[''roe'' \<mapsto> 15 / 100, ''de'' \<mapsto> 3]"]
  by simp

text \<open>
  C10. The expected return of a stock is defined on every metric set and is a number.
  A missing return on equity gives no bonus and a missing debt over equity no penalty;
  a missing revenue growth, return on equity or debt over equity gives the result
  that the value \<open>0\<close> in its place gives; with all three missing the result is \<open>0\<close>.
\<close>

theorem expected_return_stock_total:
  "(m ''roe'' = None \<longrightarrow> roe_bonus m = 0)
   \<and> (m ''de'' = None \<longrightarrow> de_penalty m = 0)
   \<and> (k \<in> {''rev_growth'', ''roe'', ''de''} \<and> m k = None \<longrightarrow>
        expected_return_stock m = expected_return_stock (m(k \<mapsto> 0)))
   \<and> (m ''rev_growth'' = None \<and> m ''roe'' = None \<and> m ''de'' = None \<longrightarrow>
        expected_return_stock m = 0)"
  by (auto simp add: expected_return_stock_def roe_bonus_def de_penalty_def or_zero_def Let_def)

theorem expected_return_stock_total_witness:
  "expected_return_stock Map.empty = 0
   \<and> expected_return_stock [''rev_growth'' \<mapsto> 8 / 100]
       = expected_return_stock [''rev_growth'' \<mapsto> 8 / 100, ''roe'' \<mapsto> 0]
   \<and> roe_bonus [''rev_growth'' \<mapsto> 8 / 100] = 0
   \<and> de_penalty [''rev_growth'' \<mapsto> 8 / 100] = 0"
  using expected_return_stock_total [of Map.empty "''roe''"]
        expected_return_stock_total [of "[''rev_growth'' \<mapsto> 8 / 100]" "''roe''"]
  by simp

section \<open>The verdict classifier\<close>

text \<open>
  C2. For every metric the classifier recognizes, a NaN value fails every threshold
  comparison and the classifier returns the lowest band, \<open>Poor\<close>.
\<close>

theorem mf_verdict_nan_is_poor:
  "metric \<in> recognized \<Longrightarrow> mf_verdict metric NaN = Inr (Some Poor)"
  by (auto simp add: recognized_def mf_verdict_def fgt_def fge_def)

theorem mf_verdict_nan_is_poor_witness:
  "''Volatility'' \<in> recognized \<and> mf_verdict ''Volatility'' NaN = Inr (Some Poor)"
  using mf_verdict_nan_is_poor [of "''Volatility''"] by (simp add: recognized_def)

text \<open>
  At NaN the Sharpe verdict is the band \<open>Poor\<close>, the verdict of the ratio \<open>0\<close>; it is
  not the value returned where no band applies.
\<close>

theorem mf_verdict_nan_counterexample:
  "''Sharpe Ratio'' \<in> recognized
   \<and> mf_verdict ''Sharpe Ratio'' NaN = Inr (Some Poor)
   \<and> mf_verdict ''Sharpe Ratio'' NaN = mf_verdict ''Sharpe Ratio'' (Num 0)
   \<and> mf_verdict ''Sharpe Ratio'' NaN \<noteq> Inr None"
  by (simp add: recognized_def mf_verdict_def fgt_def fge_def)

text \<open>
  C3. For every recognized metric and every value the classifier returns one of
  \<open>Good\<close>, \<open>Average\<close>, \<open>Poor\<close>; for every other metric name it raises nothing
  and returns \<^verbatim>\<open>None\<close>.
\<close>

theorem mf_verdict_total:
  "(metric \<in> recognized \<longrightarrow>
      mf_verdict metric v \<in> {Inr (Some Good), Inr (Some Average), Inr (Some Poor)})
   \<and> (metric \<notin> recognized \<longrightarrow> mf_verdict metric v = Inr None)"
  by (simp add: recognized_def mf_verdict_def)

theorem mf_verdict_total_witness:
  "''Volatility'' \<in> recognized
   \<and> mf_verdict ''Volatility'' (Num (14 / 100)) = Inr (Some Good)
   \<and> mf_verdict ''Volatility'' (Num (18 / 100)) = Inr (Some Average)
   \<and> mf_verdict ''Volatility'' (Num (25 / 100)) = Inr (Some Poor)
   \<and> ''Alpha'' \<notin> recognized \<and> mf_verdict ''Alpha'' (Num 1) = Inr None"
  using mf_verdict_total [of "''Alpha''" "Num 1"]
        mf_verdict_total [of "''Volatility''" "Num (14 / 100)"]
  by (simp add: recognized_def mf_verdict_def)

text \<open>
  A metric name without a branch: the call returns \<^verbatim>\<open>None\<close> and raises no error.
\<close>

theorem mf_verdict_unknown_metric_counterexample:
  "''Alpha'' \<notin> recognized \<and> mf_verdict ''Alpha'' (Num 1) = Inr None
   \<and> \<not> (\<exists>e. mf_verdict ''Alpha'' (Num 1) = Inl e)"
  by (simp add: recognized_def mf_verdict_def)

section \<open>Volatility and the Sharpe ratio\<close>

text \<open>
  C1. The Sharpe ratio is the annualised mean return divided by the volatility, with no
  test of the divisor. When the period returns have standard deviation zero the
  volatility is zero and the ratio is no finite number: it is plus infinity when the
  mean return is positive, minus infinity when it is negative, and NaN when it is zero.
\<close>

theorem sharpe_zero_volatility:
  assumes "series_std (returns nav_df) = Num 0"
  shows "volatility nav_df = Num 0
       \<and> sharpe nav_df \<in> {PInf, NInf, NaN}
       \<and> (\<forall>m. series_mean (returns nav_df) = Num m \<longrightarrow>
            (0 < m \<longrightarrow> sharpe nav_df = PInf) \<and> (m < 0 \<longrightarrow> sharpe nav_df = NInf)
            \<and> (m = 0 \<longrightarrow> sharpe nav_df = NaN))"
proof -
  have v: "volatility nav_df = Num 0" using assms by (simp add: volatility_def)
  have s: "sharpe nav_df = fdiv (fmul (series_mean (returns nav_df)) (Num 252)) (Num 0)"
    by (simp add: sharpe_def v)
  have a: "sharpe nav_df \<in> {PInf, NInf, NaN}"
    unfolding s by (cases "series_mean (returns nav_df)") (simp_all add: signed_inf_def)
  have b: "\<forall>m. series_mean (returns nav_df) = Num m \<longrightarrow>
            (0 < m \<longrightarrow> sharpe nav_df = PInf) \<and> (m < 0 \<longrightarrow> sharpe nav_df = NInf)
            \<and> (m = 0 \<longrightarrow> sharpe nav_df = NaN)"
    unfolding s by (auto simp add: signed_inf_def mult_less_0_iff zero_less_mult_iff)
  from v a b show ?thesis by blast
qed

lemma returns_doubling:
  "returns [((2024, 3, 4), 1), ((2024, 3, 5), 2), ((2024, 3, 6), 4)] = [NaN, Num 1, Num 1]"
  by (simp add: returns_def fsub_def)

lemma returns_halving:
  "returns [((2024, 3, 4), 4), ((2024, 3, 5), 2), ((2024, 3, 6), 1)]
     = [NaN, Num (- (1 / 2)), Num (- (1 / 2))]"
  by (simp add: returns_def fsub_def)

lemma returns_flat:
  "returns [((2024, 3, 4), 5), ((2024, 3, 5), 5), ((2024, 3, 6), 5)] = [NaN, Num 0, Num 0]"
  by (simp add: returns_def fsub_def)

lemma series_std_constant: "series_std [NaN, Num a, Num a] = Num 0"
  by (simp add: series_std_def series_var_def dropna_def is_nan_def fsum_def fsub_def Let_def)

lemma series_mean_constant: "series_mean [NaN, Num a, Num a] = Num a"
  by (simp add: series_mean_def dropna_def is_nan_def fsum_def Let_def)

theorem sharpe_zero_volatility_witness:
  "series_std (returns [((2024, 3, 4), 1), ((2024, 3, 5), 2), ((2024, 3, 6), 4)]) = Num 0
   \<and> sharpe [((2024, 3, 4), 1), ((2024, 3, 5), 2), ((2024, 3, 6), 4)] = PInf
   \<and> series_std (returns [((2024, 3, 4), 4), ((2024, 3, 5), 2), ((2024, 3, 6), 1)]) = Num 0
   \<and> sharpe [((2024, 3, 4), 4), ((2024, 3, 5), 2), ((2024, 3, 6), 1)] = NInf
   \<and> series_std (returns [((2024, 3, 4), 5), ((2024, 3, 5), 5), ((2024, 3, 6), 5)]) = Num 0
   \<and> sharpe [((2024, 3, 4), 5), ((2024, 3, 5), 5), ((2024, 3, 6), 5)] = NaN"
proof -
  have h1: "series_std (returns [((2024, 3, 4), 1), ((2024, 3, 5), 2), ((2024, 3, 6), 4)]) = Num 0"
    by (simp only: returns_doubling series_std_constant)
  have h2: "series_std (returns [((2024, 3, 4), 4), ((2024, 3, 5), 2), ((2024, 3, 6), 1)]) = Num 0"
    by (simp only: returns_halving series_std_constant)
  have h3: "series_std (returns [((2024, 3, 4), 5), ((2024, 3, 5), 5), ((2024, 3, 6), 5)]) = Num 0"
    by (simp only: returns_flat series_std_constant)
  have m1: "series_mean (returns [((2024, 3, 4), 1), ((2024, 3, 5), 2), ((2024, 3, 6), 4)]) = Num 1"
    by (simp only: returns_doubling series_mean_constant)
  have m2: "series_mean (returns [((2024, 3, 4), 4), ((2024, 3, 5), 2), ((2024, 3, 6), 1)])
      = Num (- (1 / 2))"
    by (simp only: returns_halving series_mean_constant)
  have m3: "series_mean (returns [((2024, 3, 4), 5), ((2024, 3, 5), 5), ((2024, 3, 6), 5)]) = Num 0"
    by (simp only: returns_flat series_mean_constant)
  show ?thesis
    using sharpe_zero_volatility [OF h1] sharpe_zero_volatility [OF h2]
          sharpe_zero_volatility [OF h3] h1 h2 h3 m1 m2 m3
    by simp
qed

text \<open>
  A fund whose NAV doubles every period has constant returns: the standard deviation is
  zero, the Sharpe ratio is plus infinity, and the classifier takes it for a number
  above \<open>1\<close>.
\<close>

theorem sharpe_zero_volatility_counterexample:
  "series_std (returns [((2024, 3, 4), 1), ((2024, 3, 5), 2), ((2024, 3, 6), 4)]) = Num 0
   \<and> sharpe [((2024, 3, 4), 1), ((2024, 3, 5), 2), ((2024, 3, 6), 4)] = PInf
   \<and> mf_verdict ''Sharpe Ratio''
        (sharpe [((2024, 3, 4), 1), ((2024, 3, 5), 2), ((2024, 3, 6), 4)]) = Inr (Some Good)"
  by (simp add: sharpe_def volatility_def returns_doubling series_std_constant
        series_mean_constant signed_inf_def mf_verdict_def fgt_def)

section \<open>Windowed growth rates\<close>

lemma date_max_Some_in: "date_max ds = Some mx \<Longrightarrow> mx \<in> set ds"
proof (induction ds arbitrary: mx)
  case Nil then show ?case by simp
next
  case (Cons d ds)
  show ?case
  proof (cases "date_max ds")
    case None
    then show ?thesis using Cons.prems by simp
  next
    case (Some e)
    then have "e \<in> set ds" by (rule Cons.IH)
    then show ?thesis using Cons.prems Some by (auto split: if_splits)
  qed
qed

lemma date_max_Cons: "\<exists>mx. date_max (d # ds) = Some mx"
  by (cases "date_max ds") (simp_all del: split_paired_Ex)

lemma date_max_in: "ds \<noteq> [] \<Longrightarrow> \<exists>mx. date_max ds = Some mx \<and> mx \<in> set ds"
proof -
  assume "ds \<noteq> []"
  then obtain d es where "ds = d # es" by (cases ds) auto
  then obtain mx where "date_max ds = Some mx" using date_max_Cons [of d es] by auto
  then show ?thesis using date_max_Some_in by blast
qed

lemma minus_years_le: "0 \<le> k \<Longrightarrow> date_le (minus_years d k) d"
  by (cases d) auto

text \<open>The latest row is in every window, so a frame with a row has no empty window.\<close>

lemma window_nonempty:
  assumes "nav_df \<noteq> []" and "0 \<le> k"
  shows "window nav_df k \<noteq> []"
proof -
  obtain mx where mx: "date_max (map fst nav_df) = Some mx" "mx \<in> set (map fst nav_df)"
    using date_max_in [of "map fst nav_df"] assms(1) by auto
  then obtain row where row: "row \<in> set nav_df" "fst row = mx" by auto
  have "date_le (minus_years mx k) (fst row)"
    using minus_years_le [OF assms(2), of mx] row(2) by simp
  then have "row \<in> set (window nav_df k)" using row(1) by (simp add: window_def mx(1))
  then show ?thesis by auto
qed

lemma cagr_1y_eq:
  assumes "window nav_df 1 \<noteq> []"
  shows "cagr_1y nav_df =
     Inr (fsub (fdiv (Num (window_last nav_df 1)) (Num (window_first nav_df 1))) (Num 1))"
  using assms
  by (cases "window nav_df 1")
     (simp_all add: cagr_1y_def iloc_last_def iloc_first_def window_first_def window_last_def
        last_map Let_def del: fdiv.simps)

lemma cagr_3y_eq:
  assumes "window nav_df 3 \<noteq> []"
  shows "cagr_3y nav_df =
     Inr (fsub (pow_third (fdiv (Num (window_last nav_df 3)) (Num (window_first nav_df 3))))
            (Num 1))"
  using assms
  by (cases "window nav_df 3")
     (simp_all add: cagr_3y_def iloc_last_def iloc_first_def window_first_def window_last_def
        last_map Let_def del: fdiv.simps)

lemma window_single:
  assumes "length (window nav_df k) = 1"
  shows "window_last nav_df k = window_first nav_df k"
proof -
  obtain r where "window nav_df k = [r]"
    using assms by (cases "window nav_df k") simp_all
  then show ?thesis by (simp add: window_first_def window_last_def)
qed

lemma window_year_example:
  "window [((2023, 2, 3), 100), ((2023, 12, 29), 120)] 1
     = [((2023, 2, 3), 100), ((2023, 12, 29), 120)]"
  by (simp add: window_def days_in_month_def)

text \<open>
  C4. On a frame with at least one row the one-year and the three-year windows are never
  empty. With a first value other than zero the one-year rate is \<open>last / first - 1\<close>,
  and the three-year rate is \<open>(last / first)\<close> to the power \<open>1/3\<close> minus \<open>1\<close> when
  the quotient is not negative; from \<open>100\<close> to \<open>120\<close> within a year the rate is
  \<open>0.20\<close>. A window of a single row with a value other than zero gives the rate \<open>0\<close>.
  With a first value of zero the one-year rate is plus or minus infinity by the sign of
  the last value and NaN when that is zero too; the three-year rate is plus infinity,
  and NaN when the last value is zero.
\<close>

theorem cagr_window:
  assumes "nav_df \<noteq> []"
  shows "window nav_df 1 \<noteq> [] \<and> window nav_df 3 \<noteq> []
    \<and> (window_first nav_df 1 \<noteq> 0 \<longrightarrow>
         cagr_1y nav_df = Inr (Num (window_last nav_df 1 / window_first nav_df 1 - 1)))
    \<and> (window_first nav_df 3 \<noteq> 0 \<and> 0 \<le> window_last nav_df 3 / window_first nav_df 3 \<longrightarrow>
         cagr_3y nav_df =
           Inr (Num ((window_last nav_df 3 / window_first nav_df 3) powr (1 / 3) - 1)))
    \<and> (length (window nav_df 1) = 1 \<and> window_first nav_df 1 \<noteq> 0 \<longrightarrow>
         cagr_1y nav_df = Inr (Num 0))
    \<and> (length (window nav_df 3) = 1 \<and> window_first nav_df 3 \<noteq> 0 \<longrightarrow>
         cagr_3y nav_df = Inr (Num 0))
    \<and> (window_first nav_df 1 = 0 \<longrightarrow>
         cagr_1y nav_df = Inr (signed_inf (window_last nav_df 1)))
    \<and> (window_first nav_df 3 = 0 \<longrightarrow>
         cagr_3y nav_df = Inr (if window_last nav_df 3 = 0 then NaN else PInf))
    \<and> cagr_1y [((2023, 2, 3), 100), ((2023, 12, 29), 120)] = Inr (Num (20 / 100))"
proof -
  have w1: "window nav_df 1 \<noteq> []" using assms by (rule window_nonempty) simp
  have w3: "window nav_df 3 \<noteq> []" using assms by (rule window_nonempty) simp
  note c1 = cagr_1y_eq [OF w1] and c3 = cagr_3y_eq [OF w3]
  have a: "window_first nav_df 1 \<noteq> 0 \<longrightarrow>
         cagr_1y nav_df = Inr (Num (window_last nav_df 1 / window_first nav_df 1 - 1))"
    by (simp add: c1 fsub_def)
  have b: "window_first nav_df 3 \<noteq> 0 \<and> 0 \<le> window_last nav_df 3 / window_first nav_df 3 \<longrightarrow>
         cagr_3y nav_df =
           Inr (Num ((window_last nav_df 3 / window_first nav_df 3) powr (1 / 3) - 1))"
    by (simp add: c3 fsub_def)
  have c: "length (window nav_df 1) = 1 \<and> window_first nav_df 1 \<noteq> 0 \<longrightarrow>
         cagr_1y nav_df = Inr (Num 0)"
    using window_single [of nav_df 1] by (simp add: c1 fsub_def)
  have d: "length (window nav_df 3) = 1 \<and> window_first nav_df 3 \<noteq> 0 \<longrightarrow>
         cagr_3y nav_df = Inr (Num 0)"
    using window_single [of nav_df 3] by (simp add: c3 fsub_def)
  have e: "window_first nav_df 1 = 0 \<longrightarrow>
         cagr_1y nav_df = Inr (signed_inf (window_last nav_df 1))"
    by (simp add: c1 fsub_def signed_inf_def)
  have f: "window_first nav_df 3 = 0 \<longrightarrow>
         cagr_3y nav_df = Inr (if window_last nav_df 3 = 0 then NaN else PInf)"
    by (simp add: c3 fsub_def signed_inf_def)
  have g: "cagr_1y [((2023, 2, 3), 100), ((2023, 12, 29), 120)] = Inr (Num (20 / 100))"
    by (simp add: cagr_1y_def window_year_example iloc_first_def iloc_last_def fsub_def)
  from w1 w3 a b c d e f g show ?thesis by blast
qed

theorem cagr_window_witness:
  "[((2023, 2, 3), 100), ((2023, 12, 29), 125 :: real)] \<noteq> []
   \<and> cagr_1y [((2023, 2, 3), 100), ((2023, 12, 29), 125)] = Inr (Num (25 / 100))
   \<and> cagr_3y [((2023, 2, 3), 100), ((2023, 12, 29), 125)]
       = Inr (Num ((125 / 100) powr (1 / 3) - 1))
   \<and> cagr_1y [((2020, 2, 3), 100), ((2023, 6, 5), 120)] = Inr (Num 0)
   \<and> cagr_3y [((2018, 2, 3), 100), ((2023, 6, 5), 120)] = Inr (Num 0)
   \<and> cagr_1y [((2023, 2, 3), 0), ((2023, 6, 5), 5)] = Inr PInf
   \<and> cagr_3y [((2023, 2, 3), 0), ((2023, 6, 5), 5)] = Inr PInf"
  using cagr_window [of "[((2023, 2, 3), 100), ((2023, 12, 29), 125)]"]
        cagr_window [of "[((2020, 2, 3), 100), ((2023, 6, 5), 120)]"]
        cagr_window [of "[((2018, 2, 3), 100), ((2023, 6, 5), 120)]"]
        cagr_window [of "[((2023, 2, 3), 0), ((2023, 6, 5), 5)]"]
  by (simp add: window_def days_in_month_def window_first_def window_last_def signed_inf_def)

text \<open>
  A two-row frame whose rows are more than a year (more than three years) apart has a
  window of one row, and the rate is the number \<open>0\<close>; a window that starts at the
  value \<open>0\<close> gives plus infinity. Neither is NaN.
\<close>

theorem cagr_window_counterexample:
  "length (window [((2020, 2, 3), 100), ((2023, 6, 5), 120)] 1) = 1
   \<and> cagr_1y [((2020, 2, 3), 100), ((2023, 6, 5), 120)] = Inr (Num 0)
   \<and> length (window [((2018, 2, 3), 100), ((2023, 6, 5), 120)] 3) = 1
   \<and> cagr_3y [((2018, 2, 3), 100), ((2023, 6, 5), 120)] = Inr (Num 0)
   \<and> window [((2023, 2, 3), 0), ((2023, 6, 5), 5)] 1 = [((2023, 2, 3), 0), ((2023, 6, 5), 5)]
   \<and> cagr_1y [((2023, 2, 3), 0), ((2023, 6, 5), 5)] = Inr PInf"
  by (simp add: window_def days_in_month_def cagr_1y_def cagr_3y_def iloc_first_def
        iloc_last_def fsub_def signed_inf_def)

section \<open>Maximum drawdown\<close>



























section \<open>The expected return of a fund\<close>

lemma sharpe_adj_clamp: "sharpe_adj sh = clamp_spec sh"
  by (cases sh) (auto simp add: sharpe_adj_def clamp_spec_def py_min_def py_max_def fgt_def)

lemma expected_return_mf_zero:
  "sh \<noteq> NaN \<Longrightarrow> expected_return_mf (Num 0) sh = Num 0"
  by (cases sh) (simp_all add: expected_return_mf_def sharpe_adj_clamp clamp_spec_def)

lemma sharpe_zero_std_eq:
  assumes "series_std (returns nav_df) = Num 0" and "series_mean (returns nav_df) = Num m"
  shows "sharpe nav_df = signed_inf m"
  using assms
  by (simp add: sharpe_def volatility_def signed_inf_def mult_less_0_iff zero_less_mult_iff)

lemma expected_return_mf_of_eq:
  "cagr_3y nav_df = Inr c3 \<Longrightarrow>
   expected_return_mf_of nav_df = Inr (expected_return_mf c3 (sharpe nav_df))"
  by (simp add: expected_return_mf_of_def)

lemma window_empty: "window [] k = []"
  by (simp add: window_def)

text \<open>
  C8. The expected return of a fund is the three-year growth rate times the Sharpe ratio
  clamped into \<open>[0.5, 1.2]\<close>, an infinite ratio being clamped to \<open>1.2\<close> or
  \<open>0.5\<close>. When the growth rate or the Sharpe ratio is NaN the result is NaN. The code
  gives numbers where the rate or the ratio has no meaning: a three-year window of a
  single row with a value other than zero has the rate \<open>0\<close>, and the expected return
  is then \<open>0\<close> unless the Sharpe ratio is NaN; returns with standard deviation zero
  and a mean other than zero give an infinite Sharpe ratio, and the expected return is
  then the rate times \<open>1.2\<close> or times \<open>0.5\<close>.
\<close>

theorem expected_return_mf_clamp:
  "expected_return_mf c3 sh = fmul c3 (clamp_spec sh)
   \<and> (c3 = NaN \<or> sh = NaN \<longrightarrow> expected_return_mf c3 sh = NaN)
   \<and> (\<forall>c s. c3 = Num c \<and> sh = Num s \<longrightarrow>
         expected_return_mf c3 sh = Num (c * max (5 / 10) (min (12 / 10) s)))
   \<and> (\<forall>c. c3 = Num c \<longrightarrow>
         expected_return_mf c3 PInf = Num (c * (12 / 10))
         \<and> expected_return_mf c3 NInf = Num (c * (5 / 10)))
   \<and> (nav_df \<noteq> [] \<longrightarrow>
         (\<exists>c. cagr_3y nav_df = Inr c
            \<and> expected_return_mf_of nav_df = Inr (expected_return_mf c (sharpe nav_df))))
   \<and> (length (window nav_df 3) = 1 \<and> window_first nav_df 3 \<noteq> 0 \<and> sharpe nav_df \<noteq> NaN \<longrightarrow>
         expected_return_mf_of nav_df = Inr (Num 0))
   \<and> (\<forall>c m. series_std (returns nav_df) = Num 0 \<and> series_mean (returns nav_df) = Num m
           \<and> m \<noteq> 0 \<and> cagr_3y nav_df = Inr (Num c) \<longrightarrow>
         expected_return_mf_of nav_df
           = Inr (Num (c * (if 0 < m then 12 / 10 else 5 / 10))))"
proof -
  have a: "expected_return_mf c3 sh = fmul c3 (clamp_spec sh)" for c3 sh
    by (simp add: expected_return_mf_def sharpe_adj_clamp)
  have b: "c3 = NaN \<or> sh = NaN \<longrightarrow> expected_return_mf c3 sh = NaN"
    unfolding a by (cases c3; cases sh) (simp_all add: clamp_spec_def)
  have c: "\<forall>c s. c3 = Num c \<and> sh = Num s \<longrightarrow>
         expected_return_mf c3 sh = Num (c * max (5 / 10) (min (12 / 10) s))"
    unfolding a by (simp add: clamp_spec_def)
  have d: "\<forall>c. c3 = Num c \<longrightarrow>
         expected_return_mf c3 PInf = Num (c * (12 / 10))
         \<and> expected_return_mf c3 NInf = Num (c * (5 / 10))"
    unfolding a by (simp add: clamp_spec_def)
  have e: "nav_df \<noteq> [] \<longrightarrow>
         (\<exists>c. cagr_3y nav_df = Inr c
            \<and> expected_return_mf_of nav_df = Inr (expected_return_mf c (sharpe nav_df)))"
  proof
    assume "nav_df \<noteq> []"
    then have "window nav_df 3 \<noteq> []" by (rule window_nonempty) simp
    then show "\<exists>c. cagr_3y nav_df = Inr c
            \<and> expected_return_mf_of nav_df = Inr (expected_return_mf c (sharpe nav_df))"
      using cagr_3y_eq [of nav_df] by (simp add: expected_return_mf_of_def)
  qed
  have f: "length (window nav_df 3) = 1 \<and> window_first nav_df 3 \<noteq> 0 \<and> sharpe nav_df \<noteq> NaN \<longrightarrow>
         expected_return_mf_of nav_df = Inr (Num 0)"
  proof
    assume h: "length (window nav_df 3) = 1 \<and> window_first nav_df 3 \<noteq> 0 \<and> sharpe nav_df \<noteq> NaN"
    then have w: "window nav_df 3 \<noteq> []" by auto
    have "window_last nav_df 3 = window_first nav_df 3"
      using h by (simp add: window_single)
    then have "cagr_3y nav_df = Inr (Num 0)"
      using h by (simp add: cagr_3y_eq [OF w] fsub_def)
    then show "expected_return_mf_of nav_df = Inr (Num 0)"
      using h by (simp add: expected_return_mf_of_eq expected_return_mf_zero)
  qed
  have g: "\<forall>c m. series_std (returns nav_df) = Num 0 \<and> series_mean (returns nav_df) = Num m
           \<and> m \<noteq> 0 \<and> cagr_3y nav_df = Inr (Num c) \<longrightarrow>
         expected_return_mf_of nav_df
           = Inr (Num (c * (if 0 < m then 12 / 10 else 5 / 10)))"
  proof (intro allI impI)
    fix c m
    assume h: "series_std (returns nav_df) = Num 0 \<and> series_mean (returns nav_df) = Num m
           \<and> m \<noteq> 0 \<and> cagr_3y nav_df = Inr (Num c)"
    then have s: "sharpe nav_df = signed_inf m" by (simp add: sharpe_zero_std_eq)
    have "expected_return_mf_of nav_df = Inr (expected_return_mf (Num c) (signed_inf m))"
      using h s by (simp add: expected_return_mf_of_eq)
    then show "expected_return_mf_of nav_df
           = Inr (Num (c * (if 0 < m then 12 / 10 else 5 / 10)))"
      using h by (simp add: a clamp_spec_def signed_inf_def)
  qed
  from a [of c3 sh] b c d e f g show ?thesis by blast
qed

lemma window_long_gap:
  "window [((2015, 5, 5), 100), ((2017, 5, 5), 110), ((2023, 6, 5), 120)] 3
     = [((2023, 6, 5), 120)]"
  by (simp add: window_def days_in_month_def)

lemma sharpe_long_gap:
  "sharpe [((2015, 5, 5), 100), ((2017, 5, 5), 110), ((2023, 6, 5), 120)] \<noteq> NaN"
  by (simp add: sharpe_def volatility_def returns_def series_std_def series_var_def
        series_mean_def dropna_def is_nan_def fsum_def fsub_def Let_def)

lemma window_doubling:
  "window [((2024, 3, 4), 1), ((2024, 3, 5), 2), ((2024, 3, 6), 4)] 3
     = [((2024, 3, 4), 1), ((2024, 3, 5), 2), ((2024, 3, 6), 4)]"
  by (simp add: window_def days_in_month_def)

lemma cagr_3y_doubling:
  "cagr_3y [((2024, 3, 4), 1), ((2024, 3, 5), 2), ((2024, 3, 6), 4)]
     = Inr (Num (4 powr (1 / 3) - 1))"
  by (simp add: cagr_3y_def window_doubling iloc_first_def iloc_last_def fsub_def)

theorem expected_return_mf_clamp_witness:
  "expected_return_mf (Num (1 / 10)) (Num 2) = Num (12 / 100)
   \<and> expected_return_mf (Num (1 / 10)) (Num (1 / 10)) = Num (5 / 100)
   \<and> expected_return_mf (Num (1 / 10)) NaN = NaN
   \<and> expected_return_mf NaN (Num 1) = NaN
   \<and> expected_return_mf (Num (1 / 10)) PInf = Num (12 / 100)
   \<and> (\<exists>c. cagr_3y [((2024, 3, 4), 1), ((2024, 3, 5), 2), ((2024, 3, 6), 4)] = Inr c
         \<and> expected_return_mf_of [((2024, 3, 4), 1), ((2024, 3, 5), 2), ((2024, 3, 6), 4)]
             = Inr (expected_return_mf c
                 (sharpe [((2024, 3, 4), 1), ((2024, 3, 5), 2), ((2024, 3, 6), 4)])))
   \<and> length (window [((2015, 5, 5), 100), ((2017, 5, 5), 110), ((2023, 6, 5), 120)] 3) = 1
   \<and> expected_return_mf_of [((2015, 5, 5), 100), ((2017, 5, 5), 110), ((2023, 6, 5), 120)]
       = Inr (Num 0)
   \<and> series_std (returns [((2024, 3, 4), 1), ((2024, 3, 5), 2), ((2024, 3, 6), 4)]) = Num 0
   \<and> expected_return_mf_of [((2024, 3, 4), 1), ((2024, 3, 5), 2), ((2024, 3, 6), 4)]
       = Inr (Num ((4 powr (1 / 3) - 1) * (12 / 10)))"
proof -
  let ?gap = "[((2015, 5, 5), 100), ((2017, 5, 5), 110), ((2023, 6, 5), 120 :: real)]"
  let ?dbl = "[((2024, 3, 4), 1), ((2024, 3, 5), 2), ((2024, 3, 6), 4 :: real)]"
  note t1 = expected_return_mf_clamp [of "Num (1 / 10)" "Num 2" ?gap]
  note t2 = expected_return_mf_clamp [of "Num (1 / 10)" "Num (1 / 10)" ?dbl]
  note t3 = expected_return_mf_clamp [of "Num (1 / 10)" NaN ?gap]
  note t4 = expected_return_mf_clamp [of NaN "Num 1" ?gap]
  have h: "series_std (returns ?dbl) = Num 0"
    by (simp only: returns_doubling series_std_constant)
  have m: "series_mean (returns ?dbl) = Num 1"
    by (simp only: returns_doubling series_mean_constant)
  have w1: "expected_return_mf (Num (1 / 10)) (Num 2) = Num (12 / 100)"
    using t1 [THEN conjunct2, THEN conjunct2, THEN conjunct1, rule_format, of "1 / 10" 2]
    by simp
  have w2: "expected_return_mf (Num (1 / 10)) (Num (1 / 10)) = Num (5 / 100)"
    using t2 [THEN conjunct2, THEN conjunct2, THEN conjunct1, rule_format, of "1 / 10" "1 / 10"]
    by simp
  have w3: "expected_return_mf (Num (1 / 10)) NaN = NaN"
    using t3 [THEN conjunct2, THEN conjunct1] by simp
  have w4: "expected_return_mf NaN (Num 1) = NaN"
    using t4 [THEN conjunct2, THEN conjunct1] by simp
  have w5: "expected_return_mf (Num (1 / 10)) PInf = Num (12 / 100)"
    using t1 [THEN conjunct2, THEN conjunct2, THEN conjunct2, THEN conjunct1, rule_format,
              of "1 / 10"]
    by simp
  have w6: "\<exists>c. cagr_3y ?dbl = Inr c
      \<and> expected_return_mf_of ?dbl = Inr (expected_return_mf c (sharpe ?dbl))"
    using t2 [THEN conjunct2, THEN conjunct2, THEN conjunct2, THEN conjunct2, THEN conjunct1]
    by simp
  have w7: "length (window ?gap 3) = 1" by (simp add: window_long_gap)
  have f7: "window_first ?gap 3 \<noteq> 0" by (simp add: window_long_gap window_first_def)
  have w8: "expected_return_mf_of ?gap = Inr (Num 0)"
    using t1 [THEN conjunct2, THEN conjunct2, THEN conjunct2, THEN conjunct2, THEN conjunct2,
              THEN conjunct1] w7 f7 sharpe_long_gap
    by blast
  have w9: "expected_return_mf_of ?dbl = Inr (Num ((4 powr (1 / 3) - 1) * (12 / 10)))"
    using t2 [THEN conjunct2, THEN conjunct2, THEN conjunct2, THEN conjunct2, THEN conjunct2,
              THEN conjunct2, rule_format, of 1 "4 powr (1 / 3) - 1"] h m cagr_3y_doubling
    by simp
  from w1 w2 w3 w4 w5 w6 w7 w8 h w9 show ?thesis by blast
qed

text \<open>
  Three rows of which only the last is within three years of the latest date: the
  three-year window has one row, the rate is \<open>0\<close> and the expected return is the
  number \<open>0\<close>. A NAV that doubles every period: the standard deviation of the returns
  is zero, the Sharpe ratio is plus infinity, and the expected return is the rate
  times \<open>1.2\<close>, a finite number.
\<close>

theorem expected_return_mf_undefined_counterexample:
  "length (window [((2015, 5, 5), 100), ((2017, 5, 5), 110), ((2023, 6, 5), 120)] 3) = 1
   \<and> cagr_3y [((2015, 5, 5), 100), ((2017, 5, 5), 110), ((2023, 6, 5), 120)] = Inr (Num 0)
   \<and> expected_return_mf_of [((2015, 5, 5), 100), ((2017, 5, 5), 110), ((2023, 6, 5), 120)]
       = Inr (Num 0)
   \<and> series_std (returns [((2024, 3, 4), 1), ((2024, 3, 5), 2), ((2024, 3, 6), 4)]) = Num 0
   \<and> sharpe [((2024, 3, 4), 1), ((2024, 3, 5), 2), ((2024, 3, 6), 4)] = PInf
   \<and> expected_return_mf_of [((2024, 3, 4), 1), ((2024, 3, 5), 2), ((2024, 3, 6), 4)]
       = Inr (Num ((4 powr (1 / 3) - 1) * (12 / 10)))"
proof -
  have c1: "cagr_3y [((2015, 5, 5), 100), ((2017, 5, 5), 110), ((2023, 6, 5), 120)]
      = Inr (Num 0)"
    by (simp add: cagr_3y_def window_long_gap iloc_first_def iloc_last_def fsub_def)
  have e1: "expected_return_mf_of [((2015, 5, 5), 100), ((2017, 5, 5), 110), ((2023, 6, 5), 120)]
      = Inr (Num 0)"
    using sharpe_long_gap by (simp add: expected_return_mf_of_eq [OF c1] expected_return_mf_zero)
  have h: "series_std (returns [((2024, 3, 4), 1), ((2024, 3, 5), 2), ((2024, 3, 6), 4)]) = Num 0"
    by (simp only: returns_doubling series_std_constant)
  have m: "series_mean (returns [((2024, 3, 4), 1), ((2024, 3, 5), 2), ((2024, 3, 6), 4)]) = Num 1"
    by (simp only: returns_doubling series_mean_constant)
  have s: "sharpe [((2024, 3, 4), 1), ((2024, 3, 5), 2), ((2024, 3, 6), 4)] = PInf"
    using sharpe_zero_std_eq [OF h m] by (simp add: signed_inf_def)
  have e2: "expected_return_mf_of [((2024, 3, 4), 1), ((2024, 3, 5), 2), ((2024, 3, 6), 4)]
      = Inr (Num ((4 powr (1 / 3) - 1) * (12 / 10)))"
    by (simp add: expected_return_mf_of_eq [OF cagr_3y_doubling] s expected_return_mf_def
          sharpe_adj_clamp clamp_spec_def)
  from c1 e1 h s e2 show ?thesis by (simp add: window_long_gap)
qed

end
